theory Spec2Isabelle
  imports Main
begin

section \<open>JavaScript values and exceptions\<close>

text \<open>
  The values that travel through the program: response bodies, raw repository records,
  error payloads and the result beans. Numbers are the integer-valued ones (page numbers,
  follower counts); an object is the list of its members, read with \<open>map_of\<close>.
\<close>

datatype jsval =
    JUndefined
  | JNull
  | JBool bool
  | JNum int
  | JStr string
  | JArr "jsval list"
  | JObj "(string \<times> jsval) list"

text \<open>
  The two exceptions raised by the program's own code paths:
  \<open>Error('TASK ALREADY SCHEDULED')\<close> of \<open>DelayedTask.schedule\<close>, and the TypeError
  of the engine when a member of \<open>undefined\<close> or \<open>null\<close> is read.
\<close>

datatype exn = TaskAlreadyScheduled | TypeError

text \<open>Reading the member \<open>k\<close> of an object; a missing member reads as \<open>undefined\<close>.\<close>

definition member_of :: "(string \<times> jsval) list \<Rightarrow> string \<Rightarrow> jsval" where
  "member_of fs k = (case map_of fs k of None \<Rightarrow> JUndefined | Some v \<Rightarrow> v)"

text \<open>
  The expression \<open>v.data\<close> for an arbitrary value \<open>v\<close>: a TypeError on
  \<open>undefined\<close> and \<open>null\<close>, the member for an object, and \<open>undefined\<close> for
  booleans, numbers, strings and arrays, none of which has a member of that name.
\<close>

fun data_of :: "jsval \<Rightarrow> exn + jsval" where
  "data_of JUndefined = Inl TypeError"
| "data_of JNull = Inl TypeError"
| "data_of (JObj fs) = Inr (member_of fs ''data'')"
| "data_of v = Inr JUndefined"

section \<open>The browser's timers\<close>

text \<open>
  \<open>setTimeout\<close> hands out a fresh positive handle and queues the callback;
  \<open>clearInterval\<close> (which shares its handle pool with \<open>clearTimeout\<close>) drops the
  entry with that handle; when a timer fires the browser drops the entry and runs the
  callback. A pending entry is (handle, callback, delay).
\<close>

record 'j timers =
  pending :: "(nat \<times> 'j \<times> nat) list"
  last_handle :: nat

definition setTimeout :: "'j \<Rightarrow> nat \<Rightarrow> 'j timers \<Rightarrow> nat \<times> 'j timers" where
  "setTimeout f ms b =
     (let h = Suc (last_handle b)
      in (h, b\<lparr>pending := pending b @ [(h, f, ms)], last_handle := h\<rparr>))"

definition clearInterval :: "nat \<Rightarrow> 'j timers \<Rightarrow> 'j timers" where
  "clearInterval h b = b\<lparr>pending := filter (\<lambda>e. fst e \<noteq> h) (pending b)\<rparr>"

text \<open>
  The timer with handle \<open>h\<close> fires: the result is the callback the browser now runs (none
  when no such timer is pending) and the timers that remain.
\<close>

definition fire :: "nat \<Rightarrow> 'j timers \<Rightarrow> 'j option \<times> 'j timers" where
  "fire h b =
     (case find (\<lambda>e. fst e = h) (pending b) of
        None \<Rightarrow> (None, b)
      | Some e \<Rightarrow> (Some (fst (snd e)), b\<lparr>pending := filter (\<lambda>e. fst e \<noteq> h) (pending b)\<rparr>))"

section \<open>DelayedTask\<close>

text \<open>
  The constructor's private variable \<open>taskID\<close> is \<open>undefined\<close> at first, a timer
  handle after \<open>schedule\<close> and \<open>null\<close> after \<open>cancel\<close>; \<open>None\<close> stands for both
  \<open>undefined\<close> and \<open>null\<close>, which the code never tells apart. The test
  \<open>if (taskID)\<close> is JavaScript truthiness: a number passes unless it is 0.
\<close>

record 'j DelayedTask =
  job :: 'j
  delay :: nat
  taskID :: "nat option"

definition new_DelayedTask :: "'j \<Rightarrow> nat \<Rightarrow> 'j DelayedTask" where
  "new_DelayedTask f ms = \<lparr>job = f, delay = ms, taskID = None\<rparr>"

definition truthy :: "nat option \<Rightarrow> bool" where
  "truthy h = (case h of None \<Rightarrow> False | Some n \<Rightarrow> n \<noteq> 0)"

definition schedule :: "'j DelayedTask \<Rightarrow> 'j timers \<Rightarrow> exn + ('j DelayedTask \<times> 'j timers)" where
  "schedule t b =
     (if truthy (taskID t) then Inl TaskAlreadyScheduled
      else (case setTimeout (job t) (delay t) b of
              (h, b') \<Rightarrow> Inr (t\<lparr>taskID := Some h\<rparr>, b')))"

definition cancel :: "'j DelayedTask \<Rightarrow> 'j timers \<Rightarrow> 'j DelayedTask \<times> 'j timers" where
  "cancel t b =
     (if truthy (taskID t)
      then (case taskID t of
              Some h \<Rightarrow> (t\<lparr>taskID := None\<rparr>, clearInterval h b)
            | None \<Rightarrow> (t, b))
      else (t, b))"

section \<open>Promises and the DelayedTaskFactory\<close>

text \<open>
  A promise is pending, fulfilled with a value, or rejected with a reason. What a call of a
  job does is one of: it throws a value, it returns a plain value, or it returns a promise
  (given by the way that promise settles; \<open>Pending\<close> when it never does).
\<close>

datatype 'a settlement = Pending | Fulfilled 'a | Rejected jsval

datatype 'a job_behaviour = Throws jsval | Returns 'a | ReturnsPromise "'a settlement"

text \<open>
  A timer callback is either a function passed as it is (\<open>Plain\<close>), or the closure that
  \<open>DelayedTaskFactory.create\<close> builds around a job and a fresh deferred
  (\<open>Guarded\<close>): \<open>try { deferred.resolve($q.when(job())) } catch (e) { deferred.reject(e.data) }\<close>.
\<close>

datatype 'j callback = Plain 'j | Guarded 'j

text \<open>
  A StructuredDelayedTask pairs the task with a promise; \<open>promise\<close> is the state of that
  promise when the pair is built.
\<close>

record ('j, 'a) StructuredDelayedTask =
  handle :: "'j DelayedTask"
  promise :: "'a settlement"

definition create :: "'j \<Rightarrow> nat \<Rightarrow> ('j callback, 'a) StructuredDelayedTask" where
  "create f ms = \<lparr>handle = new_DelayedTask (Guarded f) ms, promise = Pending\<rparr>"

text \<open>
  The \<open>Guarded\<close> callback runs a job of the given behaviour: the result is the settlement
  of the deferred's promise. \<open>$q.when\<close> and \<open>resolve\<close> make the deferred follow a
  returned promise. Reading \<open>.data\<close> of a thrown \<open>undefined\<close> or \<open>null\<close> raises
  inside the catch block: the exception leaves the callback and the deferred is never
  settled (\<open>Inl\<close>).
\<close>

fun run_guarded :: "'a job_behaviour \<Rightarrow> exn + 'a settlement" where
  "run_guarded (Throws errorResponse) =
     (case data_of errorResponse of
        Inl e \<Rightarrow> Inl e
      | Inr d \<Rightarrow> Inr (Rejected d))"
| "run_guarded (Returns result) = Inr (Fulfilled result)"
| "run_guarded (ReturnsPromise p) = Inr p"

section \<open>GithubService\<close>

definition PAGE_LIMIT :: int where
  "PAGE_LIMIT = 10"

definition START_PAGE :: int where
  "START_PAGE = 1"

definition TIME_DELAY :: nat where
  "TIME_DELAY = 2000"

definition TARGET_URL_PRFIX :: string where
  "TARGET_URL_PRFIX = ''https://api.github.com/legacy/repos/search/''"

text \<open>
  Page numbers are integers: the controller starts at START_PAGE and moves by one.
  \<open>number_to_string\<close> is the text that string concatenation gives a number. For a safe
  integer (magnitude at most \<open>2^53 - 1\<close>) it is the decimal digits, with a minus sign
  below zero. Beyond the safe integers the engine prints the digits of the nearest double,
  in exponent form from \<open>10^21\<close> on; that text is not computed here: it is whatever the
  parameter \<open>beyond\<close> gives.
\<close>

definition safe_integer :: "int \<Rightarrow> bool" where
  "safe_integer i = (- 9007199254740991 \<le> i \<and> i \<le> 9007199254740991)"

fun nat_to_string :: "nat \<Rightarrow> string" where
  "nat_to_string n =
     (if n < 10 then [''0123456789'' ! n]
      else nat_to_string (n div 10) @ [''0123456789'' ! (n mod 10)])"

declare nat_to_string.simps [simp del]

definition number_to_string :: "(int \<Rightarrow> string) \<Rightarrow> int \<Rightarrow> string" where
  "number_to_string beyond i =
     (if safe_integer i
      then (if i < 0 then CHR ''-'' # nat_to_string (nat (- i)) else nat_to_string (nat i))
      else beyond i)"

text \<open>
  The functions that end up as timer callbacks: \<open>noOpFunction\<close>, and the closure
  \<open>searchGitHubRepos(term, targetPage)\<close>. The service's one \<open>dummyDelayedTask\<close> is
  built around the no-op; no code path calls its \<open>schedule\<close>, so its handle stays unset.
\<close>

datatype job = NoOpFunction | SearchGitHubRepos string int

definition dummyDelayedTask :: "job callback DelayedTask" where
  "dummyDelayedTask = new_DelayedTask (Plain NoOpFunction) 0"

text \<open>
  The world outside the controller: the browser's timers and the URLs for which
  \<open>$http.get\<close> has been called so far.
\<close>

record world =
  timers :: "job callback timers"
  requests :: "string list"

definition createGithubSearchURL :: "(int \<Rightarrow> string) \<Rightarrow> string \<Rightarrow> int \<Rightarrow> string" where
  "createGithubSearchURL beyond term targetPage =
     TARGET_URL_PRFIX @ term @ ''?start_page='' @ number_to_string beyond targetPage"

definition searchGitHubRepos :: "string \<Rightarrow> int \<Rightarrow> job" where
  "searchGitHubRepos term targetPage = SearchGitHubRepos term targetPage"

definition paging_error :: "(int \<Rightarrow> string) \<Rightarrow> string \<Rightarrow> int \<Rightarrow> jsval" where
  "paging_error beyond keyword pageNumber =
     JObj [(''message'',
            JStr (''INVALID PAGING VALUE '' @ number_to_string beyond pageNumber @
                  '' FOR KEYWORD '' @ keyword))]"

definition searchByKeywordWithPaging ::
  "(int \<Rightarrow> string) \<Rightarrow> string \<Rightarrow> int \<Rightarrow> world \<Rightarrow>
   exn + ((job callback, jsval list) StructuredDelayedTask \<times> world)" where
  "searchByKeywordWithPaging beyond keyword pageNumber w =
     (if pageNumber > PAGE_LIMIT \<or> pageNumber < START_PAGE
      then Inr (\<lparr>handle = dummyDelayedTask,
                  promise = Rejected (paging_error beyond keyword pageNumber)\<rparr>, w)
      else (let delayedJob = create (searchGitHubRepos keyword pageNumber) TIME_DELAY
            in (case schedule (handle delayedJob) (timers w) of
                  Inl e \<Rightarrow> Inl e
                | Inr (t, b) \<Rightarrow> Inr (delayedJob\<lparr>handle := t\<rparr>, w\<lparr>timers := b\<rparr>))))"

text \<open>
  Calling a job: the search closure calls \<open>$http.get\<close> on its URL, the no-op does
  nothing. A fired timer runs its callback; the \<open>Guarded\<close> closure calls the job it wraps.
\<close>

fun call_job :: "(int \<Rightarrow> string) \<Rightarrow> job \<Rightarrow> world \<Rightarrow> world" where
  "call_job beyond NoOpFunction w = w"
| "call_job beyond (SearchGitHubRepos term targetPage) w =
     w\<lparr>requests := requests w @ [createGithubSearchURL beyond term targetPage]\<rparr>"

fun run_callback :: "(int \<Rightarrow> string) \<Rightarrow> job callback \<Rightarrow> world \<Rightarrow> world" where
  "run_callback beyond (Plain f) w = call_job beyond f w"
| "run_callback beyond (Guarded f) w = call_job beyond f w"

definition timer_fires :: "(int \<Rightarrow> string) \<Rightarrow> nat \<Rightarrow> world \<Rightarrow> world" where
  "timer_fires beyond h w =
     (case fire h (timers w) of
        (None, b) \<Rightarrow> w
      | (Some f, b) \<Rightarrow> run_callback beyond f (w\<lparr>timers := b\<rparr>))"

subsection \<open>Responses and their normalisation\<close>

text \<open>
  A response is the envelope \<open>$http\<close> delivers; the program reads its \<open>data\<close> member
  only. The body of a successful search is the documented
  \<open>{"repositories": [ {...}, ... ]}\<close>, each raw record an object; the body of a failed
  request is any value.
\<close>

type_synonym raw_record = "(string \<times> jsval) list"

record search_body =
  repositories :: "raw_record list"

record 'd response =
  data :: 'd
  status :: int

datatype http_outcome = HttpOk "search_body response" | HttpFailed "jsval response"

definition result_bean :: "raw_record \<Rightarrow> jsval" where
  "result_bean r =
     JObj [(''owner'', member_of r ''owner''),
           (''name'', member_of r ''name''),
           (''language'', member_of r ''language''),
           (''followers'', member_of r ''followers''),
           (''url'', member_of r ''url''),
           (''description'', member_of r ''description'')]"

text \<open>The \<open>for\<close> loop of \<open>createResultBeans\<close>: index \<open>i\<close>, bound \<open>l\<close>, results so far.\<close>

function beans_loop :: "nat \<Rightarrow> nat \<Rightarrow> raw_record list \<Rightarrow> jsval list \<Rightarrow> jsval list" where
  "beans_loop i l rawData results =
     (if i < l
      then beans_loop (i + 1) l rawData (results @ [result_bean (rawData ! i)])
      else results)"
  by pat_completeness auto
termination
  by (relation "measure (\<lambda>(i, l, rawData, results). l - i)") auto

declare beans_loop.simps [simp del]

definition createResultBeans :: "search_body response \<Rightarrow> jsval list" where
  "createResultBeans response =
     (let rawData = repositories (data response)
      in beans_loop 0 (length rawData) rawData [])"

text \<open>
  The promise the search closure returns,
  \<open>$http.get(url).then(createResultBeans).catch(function (response) { return $q.reject(response.data); })\<close>,
  given the outcome of the request.
\<close>

fun search_job_behaviour :: "http_outcome \<Rightarrow> jsval list job_behaviour" where
  "search_job_behaviour (HttpOk response) = ReturnsPromise (Fulfilled (createResultBeans response))"
| "search_job_behaviour (HttpFailed response) = ReturnsPromise (Rejected (data response))"

section \<open>SearchController\<close>

text \<open>
  The controller's closure variables \<open>delayedJob\<close> and \<open>currentPage\<close> and the members of
  \<open>$scope\<close> it uses. \<open>searchTerm\<close> is the string the view's input holds.
  \<open>canLoadMore\<close> is not set by the constructor: \<open>None\<close> is \<open>undefined\<close>.
  \<open>delayedJob = None\<close> is \<open>undefined\<close> or \<open>null\<close>.
\<close>

record controller =
  delayedJob :: "(job callback, jsval list) StructuredDelayedTask option"
  currentPage :: int
  searchTerm :: string
  searchResults :: "jsval list"
  canInitiateRequests :: bool
  fetchingMoreResults :: bool
  canLoadMore :: "bool option"
  error :: jsval


definition new_world :: world where
  "new_world = \<lparr>timers = \<lparr>pending = [], last_handle = 0\<rparr>, requests = []\<rparr>"

text \<open>
  A stand-in for the engine's text beyond the safe integers, for the examples below, all of
  whose page numbers are safe.
\<close>

definition unprinted :: "int \<Rightarrow> string" where
  "unprinted i = []"

text \<open>\<open>s.split(sep)\<close> for a one-character separator, and \<open>parts.join(glue)\<close>.\<close>

fun split_str :: "char \<Rightarrow> string \<Rightarrow> string list" where
  "split_str sep [] = [[]]"
| "split_str sep (c # cs) =
     (if c = sep then [] # split_str sep cs
      else (case split_str sep cs of
              [] \<Rightarrow> [[c]]
            | p # ps \<Rightarrow> (c # p) # ps))"

fun join_str :: "string \<Rightarrow> string list \<Rightarrow> string" where
  "join_str glue [] = []"
| "join_str glue [p] = p"
| "join_str glue (p # q # ps) = p @ glue @ join_str glue (q # ps)"

definition getFormattedInput :: "controller \<Rightarrow> string" where
  "getFormattedInput c = join_str ''+'' (split_str CHR '' '' (searchTerm c))"

definition resetErrorState :: "controller \<Rightarrow> controller" where
  "resetErrorState c = c\<lparr>error := JNull\<rparr>"

definition resetPaging :: "controller \<Rightarrow> controller" where
  "resetPaging c = c\<lparr>currentPage := START_PAGE, canLoadMore := Some True\<rparr>"

definition incrementPage :: "controller \<Rightarrow> controller" where
  "incrementPage c = c\<lparr>currentPage := currentPage c + 1\<rparr>"

definition decrementPage :: "controller \<Rightarrow> controller" where
  "decrementPage c = c\<lparr>currentPage := currentPage c - 1\<rparr>"

definition resetRequestInitiation :: "controller \<Rightarrow> controller" where
  "resetRequestInitiation c = c\<lparr>canInitiateRequests := True, fetchingMoreResults := False\<rparr>"

definition disableLoadMore :: "controller \<Rightarrow> controller" where
  "disableLoadMore c = c\<lparr>canLoadMore := Some False\<rparr>"

definition onErrorOccurred :: "jsval \<Rightarrow> controller \<Rightarrow> controller" where
  "onErrorOccurred err c = c\<lparr>error := err\<rparr>"

definition onSearchResultsReceived :: "jsval list \<Rightarrow> controller \<Rightarrow> controller" where
  "onSearchResultsReceived beans c =
     (if length beans = 0 then disableLoadMore c
      else c\<lparr>searchResults := searchResults c @ beans\<rparr>)"

definition cancelJobIfStillActive :: "controller \<Rightarrow> world \<Rightarrow> controller \<times> world" where
  "cancelJobIfStillActive c w =
     (case delayedJob c of
        None \<Rightarrow> (c, w)
      | Some j \<Rightarrow>
          (case cancel (handle j) (timers w) of
             (t, b) \<Rightarrow> (c\<lparr>delayedJob := None\<rparr>, w\<lparr>timers := b\<rparr>)))"

definition conductSearch ::
  "(int \<Rightarrow> string) \<Rightarrow> controller \<Rightarrow> world \<Rightarrow> exn + (controller \<times> world)" where
  "conductSearch beyond c0 w0 =
     (let term = getFormattedInput c0 in
      case cancelJobIfStillActive c0 w0 of (c1, w1) \<Rightarrow>
      let c2 = resetErrorState c1;
          c3 = resetPaging c2;
          c4 = c3\<lparr>searchResults := []\<rparr>
      in if term \<noteq> []
         then (case searchByKeywordWithPaging beyond term (currentPage c4) w1 of
                 Inl e \<Rightarrow> Inl e
               | Inr (j, w2) \<Rightarrow>
                   Inr (c4\<lparr>delayedJob := Some j, canInitiateRequests := False,
                            fetchingMoreResults := False\<rparr>, w2))
         else Inr (c4, w1))"

definition fetchMoreResults ::
  "(int \<Rightarrow> string) \<Rightarrow> controller \<Rightarrow> world \<Rightarrow> exn + (controller \<times> world)" where
  "fetchMoreResults beyond c0 w0 =
     (let term = getFormattedInput c0 in
      case cancelJobIfStillActive c0 w0 of (c1, w1) \<Rightarrow>
      let c2 = resetErrorState c1;
          c3 = incrementPage c2
      in (case searchByKeywordWithPaging beyond term (currentPage c3) w1 of
            Inl e \<Rightarrow> Inl e
          | Inr (j, w2) \<Rightarrow>
              Inr (c3\<lparr>delayedJob := Some j, canInitiateRequests := False,
                       fetchingMoreResults := True\<rparr>, w2)))"

definition isAllowedToLoadMore :: "controller \<Rightarrow> bool" where
  "isAllowedToLoadMore c =
     (canLoadMore c = Some True \<and>
      getFormattedInput c \<noteq> [] \<and>
      currentPage c \<le> PAGE_LIMIT \<and>
      canInitiateRequests c = True \<and>
      length (searchResults c) > 0)"

subsection \<open>The handlers attached to the job's promise\<close>

text \<open>
  \<open>then\<close>, \<open>catch\<close> and \<open>finally\<close> of a promise whose callbacks update the controller
  and return nothing: each takes the settlement reaching it and the controller, and gives
  the settlement it passes on and the controller after its callback.
\<close>

definition q_then :: "('a \<Rightarrow> 's \<Rightarrow> 's) \<Rightarrow> 'a settlement \<times> 's \<Rightarrow> unit settlement \<times> 's" where
  "q_then f p =
     (case p of
        (Fulfilled v, s) \<Rightarrow> (Fulfilled (), f v s)
      | (Rejected r, s) \<Rightarrow> (Rejected r, s)
      | (Pending, s) \<Rightarrow> (Pending, s))"

definition q_catch :: "(jsval \<Rightarrow> 's \<Rightarrow> 's) \<Rightarrow> unit settlement \<times> 's \<Rightarrow> unit settlement \<times> 's" where
  "q_catch g p =
     (case p of
        (Rejected r, s) \<Rightarrow> (Fulfilled (), g r s)
      | (Fulfilled v, s) \<Rightarrow> (Fulfilled v, s)
      | (Pending, s) \<Rightarrow> (Pending, s))"

definition q_finally :: "('s \<Rightarrow> 's) \<Rightarrow> unit settlement \<times> 's \<Rightarrow> unit settlement \<times> 's" where
  "q_finally h p =
     (case p of
        (Pending, s) \<Rightarrow> (Pending, s)
      | (Fulfilled v, s) \<Rightarrow> (Fulfilled v, h s)
      | (Rejected r, s) \<Rightarrow> (Rejected r, h s))"

text \<open>
  The chain \<open>conductSearch\<close> attaches to \<open>delayedJob.promise\<close>, run on the settlement
  \<open>p\<close> of that promise; and the chain of \<open>fetchMoreResults\<close>, whose catch callback
  decrements the page before it records the error.
\<close>

definition conductSearch_settled :: "jsval list settlement \<Rightarrow> controller \<Rightarrow> controller" where
  "conductSearch_settled p c =
     snd (q_finally resetRequestInitiation
           (q_catch onErrorOccurred
             (q_then onSearchResultsReceived (p, c))))"

definition fetchMoreResults_settled :: "jsval list settlement \<Rightarrow> controller \<Rightarrow> controller" where
  "fetchMoreResults_settled p c =
     snd (q_finally resetRequestInitiation
           (q_catch (\<lambda>err c'. onErrorOccurred err (decrementPage c'))
             (q_then onSearchResultsReceived (p, c))))"

section \<open>Properties of DelayedTask\<close>

lemma schedule_armed: "truthy (taskID t) \<Longrightarrow> schedule t b = Inl TaskAlreadyScheduled"
  by (simp add: schedule_def)

lemma schedule_idle:
  "\<not> truthy (taskID t) \<Longrightarrow>
   schedule t b =
     Inr (t\<lparr>taskID := Some (Suc (last_handle b))\<rparr>,
          b\<lparr>pending := pending b @ [(Suc (last_handle b), job t, delay t)],
            last_handle := Suc (last_handle b)\<rparr>)"
  by (simp add: schedule_def setTimeout_def Let_def)

lemma schedule_result_armed:
  assumes "schedule t b = Inr (t1, b1)"
  shows "truthy (taskID t1)"
proof -
  from assms have idle: "\<not> truthy (taskID t)"
    by (auto simp: schedule_def split: if_splits)
  from assms schedule_idle [OF idle, of b] have "t1 = t\<lparr>taskID := Some (Suc (last_handle b))\<rparr>"
    by simp
  then show ?thesis by (simp add: truthy_def)
qed

lemma cancel_armed:
  "taskID t = Some h \<Longrightarrow> h \<noteq> 0 \<Longrightarrow>
   cancel t b = (t\<lparr>taskID := None\<rparr>, b\<lparr>pending := filter (\<lambda>e. fst e \<noteq> h) (pending b)\<rparr>)"
  by (simp add: cancel_def truthy_def clearInterval_def)

lemma cancel_idle: "\<not> truthy (taskID t) \<Longrightarrow> cancel t b = (t, b)"
  by (simp add: cancel_def)

lemma cancel_result_idle: "\<not> truthy (taskID (fst (cancel t b)))"
  by (cases "taskID t") (auto simp: cancel_def truthy_def)

lemma schedule_after_schedule:
  "schedule t b = Inr (t1, b1) \<Longrightarrow> schedule t1 b2 = Inl TaskAlreadyScheduled"
  using schedule_result_armed schedule_armed by blast

lemma cancel_handle_gone:
  "taskID t = Some h \<Longrightarrow> h \<noteq> 0 \<Longrightarrow> h \<notin> fst ` set (pending (snd (cancel t b)))"
  by (auto simp: cancel_armed)

lemma cancel_cancel: "cancel (fst (cancel t b)) (snd (cancel t b)) = cancel t b"
  using cancel_idle [OF cancel_result_idle, of t b "snd (cancel t b)"] by simp

text \<open>
  Claim C8. For every DelayedTask: \<open>schedule()\<close> on a task whose handle is armed fails
  with the "already scheduled" error, so scheduling twice in a row fails the second time
  whatever happened to the timers in between; \<open>cancel()\<close> on an armed task drops the
  pending timer and clears the handle; \<open>cancel()\<close> on a task that is not armed changes
  nothing and raises nothing; and cancelling twice is the same as cancelling once.
\<close>

theorem schedule_twice_fails_cancel_idempotent:
  "(truthy (taskID t) \<longrightarrow> schedule t b = Inl TaskAlreadyScheduled) \<and>
   (\<forall>t1 b1 b2. schedule t b = Inr (t1, b1) \<longrightarrow> schedule t1 b2 = Inl TaskAlreadyScheduled) \<and>
   (\<forall>h. taskID t = Some h \<and> h \<noteq> 0 \<longrightarrow>
      cancel t b = (t\<lparr>taskID := None\<rparr>, b\<lparr>pending := filter (\<lambda>e. fst e \<noteq> h) (pending b)\<rparr>) \<and>
      h \<notin> fst ` set (pending (snd (cancel t b)))) \<and>
   (\<not> truthy (taskID t) \<longrightarrow> cancel t b = (t, b)) \<and>
   cancel (fst (cancel t b)) (snd (cancel t b)) = cancel t b"
proof (intro conjI allI impI)
  show "schedule t b = Inl TaskAlreadyScheduled" if "truthy (taskID t)"
    using that by (rule schedule_armed)
  show "schedule t1 b2 = Inl TaskAlreadyScheduled" if "schedule t b = Inr (t1, b1)" for t1 b1 b2
    using that by (rule schedule_after_schedule)
  show "cancel t b = (t\<lparr>taskID := None\<rparr>, b\<lparr>pending := filter (\<lambda>e. fst e \<noteq> h) (pending b)\<rparr>)"
    if "taskID t = Some h \<and> h \<noteq> 0" for h
    using that by (simp add: cancel_armed)
  show "h \<notin> fst ` set (pending (snd (cancel t b)))" if "taskID t = Some h \<and> h \<noteq> 0" for h
    using that by (simp add: cancel_handle_gone)
  show "cancel t b = (t, b)" if "\<not> truthy (taskID t)"
    using that by (rule cancel_idle)
  show "cancel (fst (cancel t b)) (snd (cancel t b)) = cancel t b"
    by (rule cancel_cancel)
qed

theorem schedule_twice_fails_cancel_idempotent_witness:
  "schedule \<lparr>job = NoOpFunction, delay = 0, taskID = Some 1\<rparr>
            \<lparr>pending = [(1, NoOpFunction, 0)], last_handle = 1\<rparr> = Inl TaskAlreadyScheduled \<and>
   schedule \<lparr>job = NoOpFunction, delay = 0, taskID = None\<rparr> \<lparr>pending = [], last_handle = 0\<rparr> =
     Inr (\<lparr>job = NoOpFunction, delay = 0, taskID = Some 1\<rparr>,
          \<lparr>pending = [(1, NoOpFunction, 0)], last_handle = 1\<rparr>) \<and>
   cancel \<lparr>job = NoOpFunction, delay = 0, taskID = Some 1\<rparr>
          \<lparr>pending = [(1, NoOpFunction, 0)], last_handle = 1\<rparr> =
     (\<lparr>job = NoOpFunction, delay = 0, taskID = None\<rparr>, \<lparr>pending = [], last_handle = 1\<rparr>) \<and>
   cancel \<lparr>job = NoOpFunction, delay = 0, taskID = None\<rparr> \<lparr>pending = [], last_handle = 1\<rparr> =
     (\<lparr>job = NoOpFunction, delay = 0, taskID = None\<rparr>, \<lparr>pending = [], last_handle = 1\<rparr>)"
proof -
  let ?armed = "\<lparr>job = NoOpFunction, delay = 0, taskID = Some (1::nat)\<rparr>"
  let ?idle = "\<lparr>job = NoOpFunction, delay = 0, taskID = None\<rparr>"
  let ?b1 = "\<lparr>pending = [(1::nat, NoOpFunction, 0::nat)], last_handle = 1\<rparr>"
  let ?b0 = "\<lparr>pending = ([] :: (nat \<times> job \<times> nat) list), last_handle = 0\<rparr>"
  let ?b2 = "\<lparr>pending = ([] :: (nat \<times> job \<times> nat) list), last_handle = 1\<rparr>"
  have armed: "truthy (taskID ?armed)" and idle: "\<not> truthy (taskID ?idle)"
    by (simp_all add: truthy_def)
  have id1: "taskID ?armed = Some 1 \<and> (1::nat) \<noteq> 0" by simp
  have first: "schedule ?idle ?b0 = Inr (?armed, ?b1)"
    by (simp add: schedule_def truthy_def setTimeout_def)
  note A = schedule_twice_fails_cancel_idempotent [of ?armed ?b1]
  note I = schedule_twice_fails_cancel_idempotent [of ?idle ?b2]
  from A armed have c1: "schedule ?armed ?b1 = Inl TaskAlreadyScheduled" by blast
  from schedule_twice_fails_cancel_idempotent [of ?idle ?b0] first
  have c2: "schedule ?armed ?b1 = Inl TaskAlreadyScheduled" by blast
  from A id1 have "cancel ?armed ?b1 =
      (?armed\<lparr>taskID := None\<rparr>, ?b1\<lparr>pending := filter (\<lambda>e. fst e \<noteq> 1) (pending ?b1)\<rparr>)"
    by blast
  then have c3: "cancel ?armed ?b1 = (?idle, ?b2)" by simp
  from I idle have c4: "cancel ?idle ?b2 = (?idle, ?b2)" by blast
  from c1 c2 first c3 c4 show ?thesis by simp
qed

lemma fire_pending:
  "(h, f, ms) \<in> set (pending b) \<Longrightarrow> fire h b = (cb, b2) \<Longrightarrow>
   cb \<noteq> None \<and> h \<notin> fst ` set (pending b2)"
  by (auto simp: fire_def find_None_iff split: option.splits)

text \<open>
  Claim C3, as the code has it. The callback handed to \<open>setTimeout\<close> is the job itself,
  and nothing assigns \<open>taskID\<close> when it runs. So after a scheduled task's timer has fired
  (the callback ran, the timer is gone from the pending ones) the handle is still set and
  \<open>schedule()\<close> fails with the "already scheduled" error; it succeeds again once
  \<open>cancel()\<close> has cleared the handle.
\<close>

theorem fired_task_stays_armed:
  assumes "schedule t b = Inr (t1, b1)" and "taskID t1 = Some h" and "fire h b1 = (cb, b2)"
  shows "cb \<noteq> None \<and> h \<notin> fst ` set (pending b2) \<and>
         schedule t1 b2 = Inl TaskAlreadyScheduled \<and>
         (\<exists>r. schedule (fst (cancel t1 b2)) (snd (cancel t1 b2)) = Inr r)"
proof -
  from assms(1) have idle: "\<not> truthy (taskID t)"
    by (auto simp: schedule_def split: if_splits)
  from assms(1) schedule_idle [OF idle, of b]
  have t1: "t1 = t\<lparr>taskID := Some (Suc (last_handle b))\<rparr>"
    and b1: "b1 = b\<lparr>pending := pending b @ [(Suc (last_handle b), job t, delay t)],
                     last_handle := Suc (last_handle b)\<rparr>"
    by simp_all
  from t1 assms(2) have h: "h = Suc (last_handle b)" by simp
  have "(h, job t, delay t) \<in> set (pending b1)" by (simp add: b1 h)
  from fire_pending [OF this assms(3)]
  have fired: "cb \<noteq> None \<and> h \<notin> fst ` set (pending b2)" .
  have again: "schedule t1 b2 = Inl TaskAlreadyScheduled"
    using assms(1) by (rule schedule_after_schedule)
  have "\<exists>r. schedule (fst (cancel t1 b2)) (snd (cancel t1 b2)) = Inr r"
    using cancel_result_idle [of t1 b2] by (simp add: schedule_idle)
  with fired again show ?thesis by simp
qed

theorem fired_task_stays_armed_witness:
  "fire 1 \<lparr>pending = [(1, NoOpFunction, 0)], last_handle = 1\<rparr> =
     (Some NoOpFunction, \<lparr>pending = [], last_handle = 1\<rparr>) \<and>
   schedule \<lparr>job = NoOpFunction, delay = 0, taskID = Some 1\<rparr> \<lparr>pending = [], last_handle = 1\<rparr> =
     Inl TaskAlreadyScheduled \<and>
   (\<exists>r. schedule (fst (cancel \<lparr>job = NoOpFunction, delay = 0, taskID = Some 1\<rparr>
                               \<lparr>pending = [], last_handle = 1\<rparr>))
                  (snd (cancel \<lparr>job = NoOpFunction, delay = 0, taskID = Some 1\<rparr>
                               \<lparr>pending = [], last_handle = 1\<rparr>)) = Inr r)"
proof -
  let ?t = "new_DelayedTask NoOpFunction 0"
  let ?t1 = "\<lparr>job = NoOpFunction, delay = 0, taskID = Some (1::nat)\<rparr>"
  let ?b = "\<lparr>pending = ([] :: (nat \<times> job \<times> nat) list), last_handle = 0\<rparr>"
  let ?b1 = "\<lparr>pending = [(1::nat, NoOpFunction, 0::nat)], last_handle = 1\<rparr>"
  let ?b2 = "\<lparr>pending = ([] :: (nat \<times> job \<times> nat) list), last_handle = 1\<rparr>"
  have s: "schedule ?t ?b = Inr (?t1, ?b1)"
    by (simp add: schedule_def new_DelayedTask_def truthy_def setTimeout_def)
  have i: "taskID ?t1 = Some 1" by simp
  have f: "fire 1 ?b1 = (Some NoOpFunction, ?b2)"
    by (simp add: fire_def)
  from fired_task_stays_armed [OF s i f] f show ?thesis by simp
qed

text \<open>
  The claim as stated (scheduling again after firing succeeds) fails on a fresh task:
  schedule, let the timer fire, schedule again.
\<close>

theorem reschedule_after_fire_counterexample:
  "schedule (new_DelayedTask NoOpFunction 0) \<lparr>pending = [], last_handle = 0\<rparr> =
     Inr (\<lparr>job = NoOpFunction, delay = 0, taskID = Some 1\<rparr>,
          \<lparr>pending = [(1, NoOpFunction, 0)], last_handle = 1\<rparr>) \<and>
   fire 1 \<lparr>pending = [(1, NoOpFunction, 0)], last_handle = 1\<rparr> =
     (Some NoOpFunction, \<lparr>pending = [], last_handle = 1\<rparr>) \<and>
   schedule \<lparr>job = NoOpFunction, delay = 0, taskID = Some 1\<rparr> \<lparr>pending = [], last_handle = 1\<rparr> =
     Inl TaskAlreadyScheduled"
  by (simp add: schedule_def new_DelayedTask_def truthy_def setTimeout_def fire_def)

section \<open>Properties of the DelayedTaskFactory\<close>

text \<open>
  Claim C5, as the code has it. The callback that \<open>create\<close> installs (the promise it
  returns is pending until that callback runs) turns a synchronous throw of a value
  \<open>e\<close> into a rejection with \<open>e.data\<close>, whenever \<open>e.data\<close> can be read; a rejection of
  the promise the job returned passes through with its reason unchanged. For the search
  job that reason is already the \<open>data\<close> of the failed response, taken by the job's own
  catch handler.
\<close>

theorem factory_rejection_reason:
  "(\<forall>d. data_of e = Inr d \<longrightarrow> run_guarded (Throws e) = Inr (Rejected d)) \<and>
   run_guarded (ReturnsPromise (Rejected r)) = Inr (Rejected r) \<and>
   run_guarded (search_job_behaviour (HttpFailed response)) = Inr (Rejected (data response)) \<and>
   job (handle (create f ms)) = Guarded f \<and>
   promise (create f ms) = Pending"
  by (simp add: create_def new_DelayedTask_def)

theorem factory_rejection_reason_witness:
  "data_of (JObj [(''data'', JStr ''payload''), (''status'', JNum 500)]) = Inr (JStr ''payload'') \<and>
   run_guarded (Throws (JObj [(''data'', JStr ''payload''), (''status'', JNum 500)])) =
     (Inr (Rejected (JStr ''payload'')) :: exn + jsval settlement)"
proof -
  have d: "data_of (JObj [(''data'', JStr ''payload''), (''status'', JNum 500)]) =
           Inr (JStr ''payload'')"
    by (simp add: member_of_def)
  have "\<forall>d. data_of (JObj [(''data'', JStr ''payload''), (''status'', JNum 500)]) = Inr d \<longrightarrow>
          run_guarded (Throws (JObj [(''data'', JStr ''payload''), (''status'', JNum 500)])) =
            (Inr (Rejected d) :: exn + jsval settlement)"
    by (rule factory_rejection_reason [THEN conjunct1])
  with d show ?thesis by blast
qed

text \<open>
  The claim as stated fails for a job whose promise is rejected with an envelope that has
  a \<open>data\<close> member: the future is rejected with the whole envelope, not with that member.
\<close>

theorem factory_async_rejection_counterexample:
  "run_guarded (ReturnsPromise
      (Rejected (JObj [(''data'', JStr ''payload''), (''status'', JNum 500)]))) =
     (Inr (Rejected (JObj [(''data'', JStr ''payload''), (''status'', JNum 500)]))
        :: exn + jsval settlement) \<and>
   data_of (JObj [(''data'', JStr ''payload''), (''status'', JNum 500)]) = Inr (JStr ''payload'') \<and>
   run_guarded (ReturnsPromise
      (Rejected (JObj [(''data'', JStr ''payload''), (''status'', JNum 500)]))) \<noteq>
     (Inr (Rejected (JStr ''payload'')) :: exn + jsval settlement)"
  by (simp add: member_of_def)

section \<open>Properties of the GithubService\<close>

lemma searchByKeywordWithPaging_total:
  "\<exists>j w'. searchByKeywordWithPaging beyond keyword pageNumber w = Inr (j, w')"
  by (simp add: searchByKeywordWithPaging_def create_def new_DelayedTask_def schedule_def
      truthy_def setTimeout_def Let_def)

lemma searchByKeywordWithPaging_in_range:
  assumes "START_PAGE \<le> pageNumber" and "pageNumber \<le> PAGE_LIMIT"
  shows "searchByKeywordWithPaging beyond keyword pageNumber w =
     Inr (\<lparr>handle = \<lparr>job = Guarded (SearchGitHubRepos keyword pageNumber), delay = TIME_DELAY,
                      taskID = Some (Suc (last_handle (timers w)))\<rparr>,
            promise = Pending\<rparr>,
          w\<lparr>timers := (timers w)\<lparr>pending := pending (timers w) @
                   [(Suc (last_handle (timers w)),
                     Guarded (SearchGitHubRepos keyword pageNumber), TIME_DELAY)],
                 last_handle := Suc (last_handle (timers w))\<rparr>\<rparr>)"
  using assms
  by (simp add: searchByKeywordWithPaging_def create_def new_DelayedTask_def schedule_def
      truthy_def setTimeout_def Let_def searchGitHubRepos_def)

lemma number_to_string_safe:
  "safe_integer i \<Longrightarrow>
   number_to_string beyond i =
     (if i < 0 then CHR ''-'' # nat_to_string (nat (- i)) else nat_to_string (nat i))"
  by (simp add: number_to_string_def)

lemma number_to_string_beyond:
  "\<not> safe_integer i \<Longrightarrow> number_to_string beyond i = beyond i"
  by (simp add: number_to_string_def)

text \<open>
  Claim C1. For every keyword and every page number below START_PAGE or above PAGE_LIMIT,
  \<open>searchByKeywordWithPaging\<close> returns the dummy task (the no-op job, never armed) paired
  with a promise that is already rejected with a message made of the text of the page
  number and the keyword; the world is returned as it was: no timer armed, no request
  sent. The text of the page number is the engine's: its decimal digits for a safe
  integer, and what the engine prints (\<open>beyond\<close>) outside them.
\<close>

theorem paging_out_of_range_rejected:
  assumes "pageNumber < START_PAGE \<or> pageNumber > PAGE_LIMIT"
  shows "searchByKeywordWithPaging beyond keyword pageNumber w =
           Inr (\<lparr>handle = \<lparr>job = Plain NoOpFunction, delay = 0, taskID = None\<rparr>,
                  promise = Rejected (JObj [(''message'',
                    JStr (''INVALID PAGING VALUE '' @ number_to_string beyond pageNumber @
                          '' FOR KEYWORD '' @ keyword))])\<rparr>, w) \<and>
         (safe_integer pageNumber \<longrightarrow>
            number_to_string beyond pageNumber =
              (if pageNumber < 0 then CHR ''-'' # nat_to_string (nat (- pageNumber))
               else nat_to_string (nat pageNumber))) \<and>
         (\<not> safe_integer pageNumber \<longrightarrow>
            number_to_string beyond pageNumber = beyond pageNumber)"
proof -
  have "searchByKeywordWithPaging beyond keyword pageNumber w =
           Inr (\<lparr>handle = \<lparr>job = Plain NoOpFunction, delay = 0, taskID = None\<rparr>,
                  promise = Rejected (JObj [(''message'',
                    JStr (''INVALID PAGING VALUE '' @ number_to_string beyond pageNumber @
                          '' FOR KEYWORD '' @ keyword))])\<rparr>, w)"
    using assms
    by (auto simp: searchByKeywordWithPaging_def dummyDelayedTask_def new_DelayedTask_def
        paging_error_def)
  then show ?thesis
    by (simp add: number_to_string_safe number_to_string_beyond)
qed

theorem paging_out_of_range_rejected_witness:
  "(11 < START_PAGE \<or> 11 > PAGE_LIMIT) \<and> safe_integer 11 \<and>
   searchByKeywordWithPaging unprinted ''foo+bar'' 11
     \<lparr>timers = \<lparr>pending = [(3, Guarded (SearchGitHubRepos ''foo+bar'' 10), 2000)],
                 last_handle = 3\<rparr>,
      requests = [''https://api.github.com/legacy/repos/search/foo+bar?start_page=9'']\<rparr> =
     Inr (\<lparr>handle = \<lparr>job = Plain NoOpFunction, delay = 0, taskID = None\<rparr>,
            promise = Rejected (JObj [(''message'',
              JStr ''INVALID PAGING VALUE 11 FOR KEYWORD foo+bar'')])\<rparr>,
          \<lparr>timers = \<lparr>pending = [(3, Guarded (SearchGitHubRepos ''foo+bar'' 10), 2000)],
                      last_handle = 3\<rparr>,
           requests = [''https://api.github.com/legacy/repos/search/foo+bar?start_page=9'']\<rparr>) \<and>
   (- 2 < START_PAGE \<or> - 2 > PAGE_LIMIT) \<and> safe_integer (- 2) \<and>
   searchByKeywordWithPaging unprinted ''foo+bar'' (- 2) new_world =
     Inr (\<lparr>handle = \<lparr>job = Plain NoOpFunction, delay = 0, taskID = None\<rparr>,
            promise = Rejected (JObj [(''message'',
              JStr ''INVALID PAGING VALUE -2 FOR KEYWORD foo+bar'')])\<rparr>, new_world) \<and>
   (1000000000000000000000 < START_PAGE \<or> 1000000000000000000000 > PAGE_LIMIT) \<and>
   \<not> safe_integer 1000000000000000000000 \<and>
   searchByKeywordWithPaging (\<lambda>i. ''1e+21'') ''foo+bar'' 1000000000000000000000 new_world =
     Inr (\<lparr>handle = \<lparr>job = Plain NoOpFunction, delay = 0, taskID = None\<rparr>,
            promise = Rejected (JObj [(''message'',
              JStr ''INVALID PAGING VALUE 1e+21 FOR KEYWORD foo+bar'')])\<rparr>, new_world)"
proof -
  let ?w = "\<lparr>timers = \<lparr>pending = [(3, Guarded (SearchGitHubRepos ''foo+bar'' 10), 2000)],
                        last_handle = 3\<rparr>,
             requests = [''https://api.github.com/legacy/repos/search/foo+bar?start_page=9'']\<rparr>"
  have hi: "11 < START_PAGE \<or> 11 > PAGE_LIMIT" by (simp add: PAGE_LIMIT_def)
  have lo: "- 2 < START_PAGE \<or> - 2 > PAGE_LIMIT" by (simp add: START_PAGE_def)
  have far: "1000000000000000000000 < START_PAGE \<or> 1000000000000000000000 > PAGE_LIMIT"
    by (simp add: PAGE_LIMIT_def)
  have s11: "safe_integer 11" and s2: "safe_integer (- 2)"
    and sfar: "\<not> safe_integer 1000000000000000000000"
    by (simp_all add: safe_integer_def)
  have d11: "nat_to_string 11 = ''11''" and d2: "nat_to_string 2 = ''2''"
    by (simp_all add: nat_to_string.simps)
  note A = paging_out_of_range_rejected [OF hi, of unprinted "''foo+bar''" ?w]
  note B = paging_out_of_range_rejected [OF lo, of unprinted "''foo+bar''" new_world]
  note C = paging_out_of_range_rejected [OF far, of "\<lambda>i. ''1e+21''" "''foo+bar''" new_world]
  from A s11 d11 have a: "searchByKeywordWithPaging unprinted ''foo+bar'' 11 ?w =
     Inr (\<lparr>handle = \<lparr>job = Plain NoOpFunction, delay = 0, taskID = None\<rparr>,
            promise = Rejected (JObj [(''message'',
              JStr ''INVALID PAGING VALUE 11 FOR KEYWORD foo+bar'')])\<rparr>, ?w)"
    by simp
  from B s2 d2 have b: "searchByKeywordWithPaging unprinted ''foo+bar'' (- 2) new_world =
     Inr (\<lparr>handle = \<lparr>job = Plain NoOpFunction, delay = 0, taskID = None\<rparr>,
            promise = Rejected (JObj [(''message'',
              JStr ''INVALID PAGING VALUE -2 FOR KEYWORD foo+bar'')])\<rparr>, new_world)"
    by simp
  from C sfar have c: "searchByKeywordWithPaging (\<lambda>i. ''1e+21'') ''foo+bar''
       1000000000000000000000 new_world =
     Inr (\<lparr>handle = \<lparr>job = Plain NoOpFunction, delay = 0, taskID = None\<rparr>,
            promise = Rejected (JObj [(''message'',
              JStr ''INVALID PAGING VALUE 1e+21 FOR KEYWORD foo+bar'')])\<rparr>, new_world)"
    by simp
  from a b c hi lo far s11 s2 sfar show ?thesis by simp
qed

lemma beans_loop_drop:
  "l = length rawData \<Longrightarrow> i \<le> l \<Longrightarrow>
   beans_loop i l rawData results = results @ map result_bean (drop i rawData)"
proof (induction i l rawData results rule: beans_loop.induct)
  case (1 i l rawData results)
  show ?case
  proof (cases "i < l")
    case True
    have "beans_loop i l rawData results =
          beans_loop (i + 1) l rawData (results @ [result_bean (rawData ! i)])"
      using True by (subst beans_loop.simps) simp
    also have "\<dots> = (results @ [result_bean (rawData ! i)]) @ map result_bean (drop (i + 1) rawData)"
      using "1.IH" [OF True] "1.prems" True by simp
    also have "\<dots> = results @ map result_bean (rawData ! i # drop (Suc i) rawData)"
      by simp
    also have "rawData ! i # drop (Suc i) rawData = drop i rawData"
      using True "1.prems" by (simp add: Cons_nth_drop_Suc)
    finally show ?thesis .
  next
    case False
    with "1.prems" have "i = length rawData" by simp
    then show ?thesis
      using False by (subst beans_loop.simps) simp
  qed
qed

lemma createResultBeans_map:
  "createResultBeans response = map result_bean (repositories (data response))"
  by (simp add: createResultBeans_def Let_def beans_loop_drop)

lemma result_bean_projection:
  "\<exists>fs. result_bean r = JObj fs \<and>
        map fst fs = [''owner'', ''name'', ''language'', ''followers'', ''url'', ''description''] \<and>
        (\<forall>k. member_of fs k =
           (if k \<in> set [''owner'', ''name'', ''language'', ''followers'', ''url'', ''description'']
            then member_of r k else JUndefined))"
  by (simp add: result_bean_def member_of_def)

section \<open>Properties of the SearchController\<close>

lemma split_str_not_Nil: "split_str sep s \<noteq> []"
  by (induction s) (auto split: list.splits)

lemma join_str_Cons_Cons: "join_str glue ((c # p) # ps) = c # join_str glue (p # ps)"
  by (cases ps) simp_all

lemma join_str_Nil_Cons: "ps \<noteq> [] \<Longrightarrow> join_str glue ([] # ps) = glue @ join_str glue ps"
  by (cases ps) simp_all

lemma join_split_str:
  "join_str [g] (split_str sep s) = map (\<lambda>c. if c = sep then g else c) s"
proof (induction s)
  case Nil
  show ?case by simp
next
  case (Cons c cs)
  show ?case
  proof (cases "c = sep")
    case True
    then show ?thesis
      using Cons.IH by (simp add: join_str_Nil_Cons split_str_not_Nil)
  next
    case False
    obtain p ps where sp: "split_str sep cs = p # ps"
      using split_str_not_Nil [of sep cs] by (cases "split_str sep cs") auto
    with False Cons.IH show ?thesis
      by (simp add: join_str_Cons_Cons)
  qed
qed

lemma getFormattedInput_map:
  "getFormattedInput c = map (\<lambda>x. if x = CHR '' '' then CHR ''+'' else x) (searchTerm c)"
  by (simp add: getFormattedInput_def join_split_str)

lemma getFormattedInput_empty_iff: "getFormattedInput c = [] \<longleftrightarrow> searchTerm c = []"
  by (simp add: getFormattedInput_map)

lemma cancelJobIfStillActive_effect:
  "cancelJobIfStillActive c w = (c1, w1) \<Longrightarrow>
   c1 = c\<lparr>delayedJob := None\<rparr> \<and> requests w1 = requests w \<and>
   last_handle (timers w1) = last_handle (timers w) \<and>
   set (pending (timers w1)) \<subseteq> set (pending (timers w))"
  by (auto simp: cancelJobIfStillActive_def cancel_def clearInterval_def
      split: option.splits if_splits prod.splits)




lemma conductSearch_nonempty_term:
  assumes "searchTerm c \<noteq> []"
  shows "\<exists>c' w' j. conductSearch beyond c w = Inr (c', w') \<and> delayedJob c' = Some j \<and>
           \<not> canInitiateRequests c' \<and> taskID (handle j) \<noteq> None \<and>
           length (pending (timers w')) \<le> Suc (length (pending (timers w))) \<and>
           last_handle (timers w') = Suc (last_handle (timers w))"
proof -
  obtain c1 w1 where cj: "cancelJobIfStillActive c w = (c1, w1)"
    by (cases "cancelJobIfStillActive c w")
  note eff = cancelJobIfStillActive_effect [OF cj]
  have len: "length (pending (timers w1)) \<le> length (pending (timers w))"
    using cj
    by (auto simp: cancelJobIfStillActive_def cancel_def clearInterval_def
        split: option.splits if_splits prod.splits)
  from assms have ne: "getFormattedInput c \<noteq> []"
    by (simp add: getFormattedInput_empty_iff)
  have rng: "START_PAGE \<le> START_PAGE" "START_PAGE \<le> PAGE_LIMIT"
    by (simp_all add: START_PAGE_def PAGE_LIMIT_def)
  show ?thesis
    using ne eff len
    by (simp add: conductSearch_def cj Let_def resetPaging_def resetErrorState_def
        searchByKeywordWithPaging_in_range [OF rng])
qed

lemma fetchMoreResults_settled_Rejected:
  "fetchMoreResults_settled (Rejected r) c =
     c\<lparr>currentPage := currentPage c - 1, error := r, canInitiateRequests := True,
       fetchingMoreResults := False\<rparr>"
  by (simp add: fetchMoreResults_settled_def q_then_def q_catch_def q_finally_def
      onErrorOccurred_def decrementPage_def resetRequestInitiation_def)

lemma conductSearch_settled_Rejected:
  "conductSearch_settled (Rejected r) c =
     c\<lparr>error := r, canInitiateRequests := True, fetchingMoreResults := False\<rparr>"
  by (simp add: conductSearch_settled_def q_then_def q_catch_def q_finally_def
      onErrorOccurred_def resetRequestInitiation_def)

lemma conductSearch_settled_Fulfilled:
  "conductSearch_settled (Fulfilled beans) c =
     resetRequestInitiation (onSearchResultsReceived beans c)"
  by (simp add: conductSearch_settled_def q_then_def q_catch_def q_finally_def)

lemma fetchMoreResults_settled_Fulfilled:
  "fetchMoreResults_settled (Fulfilled beans) c =
     resetRequestInitiation (onSearchResultsReceived beans c)"
  by (simp add: fetchMoreResults_settled_def q_then_def q_catch_def q_finally_def)


lemma fetchMoreResults_result:
  "\<exists>j w1. fetchMoreResults beyond c w =
     Inr (c\<lparr>delayedJob := Some j, currentPage := currentPage c + 1, error := JNull,
            canInitiateRequests := False, fetchingMoreResults := True\<rparr>, w1)"
proof -
  obtain c1 w1 where cj: "cancelJobIfStillActive c w = (c1, w1)"
    by (cases "cancelJobIfStillActive c w")
  from cancelJobIfStillActive_effect [OF cj] have c1: "c1 = c\<lparr>delayedJob := None\<rparr>"
    by simp
  obtain j w2 where s:
    "searchByKeywordWithPaging beyond (getFormattedInput c) (currentPage c + 1) w1 = Inr (j, w2)"
    using searchByKeywordWithPaging_total by blast
  have "fetchMoreResults beyond c w =
     Inr (c\<lparr>delayedJob := Some j, currentPage := currentPage c + 1, error := JNull,
            canInitiateRequests := False, fetchingMoreResults := True\<rparr>, w2)"
    by (simp add: fetchMoreResults_def cj c1 Let_def incrementPage_def resetErrorState_def s)
  then show ?thesis by blast
qed

text \<open>
  Claim C4, as the code has it. \<open>fetchMoreResults\<close> always returns, with the page
  incremented. When the promise of its job is rejected and no other controller action has
  run since the call, so that the handlers run on the controller as the call left it, they
  leave \<open>currentPage\<close> at the value it had before the call, record the rejection reason in
  \<open>error\<close>, and leave the accumulated \<open>searchResults\<close> as they were before the call. This
  holds for any reason \<open>r\<close>, for the reason the factory and the search job derive from a
  failed response (its \<open>data\<close>), and for the paging error of a page above PAGE_LIMIT,
  with which the returned promise is rejected from the start.
\<close>

theorem fetchMoreResults_failure_compensated:
  "\<exists>c1 w1 j. fetchMoreResults beyond c w = Inr (c1, w1) \<and>
     delayedJob c1 = Some j \<and>
     currentPage c1 = currentPage c + 1 \<and>
     currentPage (fetchMoreResults_settled (Rejected r) c1) = currentPage c \<and>
     error (fetchMoreResults_settled (Rejected r) c1) = r \<and>
     searchResults (fetchMoreResults_settled (Rejected r) c1) = searchResults c \<and>
     (\<exists>p. run_guarded (search_job_behaviour (HttpFailed response)) = Inr p \<and>
          currentPage (fetchMoreResults_settled p c1) = currentPage c \<and>
          error (fetchMoreResults_settled p c1) = data response \<and>
          searchResults (fetchMoreResults_settled p c1) = searchResults c) \<and>
     (currentPage c + 1 > PAGE_LIMIT \<longrightarrow>
        w1 = snd (cancelJobIfStillActive c w) \<and>
        promise j = Rejected (paging_error beyond (getFormattedInput c) (currentPage c + 1)) \<and>
        currentPage (fetchMoreResults_settled (promise j) c1) = currentPage c \<and>
        error (fetchMoreResults_settled (promise j) c1) =
          paging_error beyond (getFormattedInput c) (currentPage c + 1) \<and>
        searchResults (fetchMoreResults_settled (promise j) c1) = searchResults c)"
proof -
  obtain c0 w0 where cj: "cancelJobIfStillActive c w = (c0, w0)"
    by (cases "cancelJobIfStillActive c w")
  from cancelJobIfStillActive_effect [OF cj] have c0: "c0 = c\<lparr>delayedJob := None\<rparr>"
    by simp
  obtain j w1 where s:
    "searchByKeywordWithPaging beyond (getFormattedInput c) (currentPage c + 1) w0 = Inr (j, w1)"
    using searchByKeywordWithPaging_total by blast
  let ?c1 = "c\<lparr>delayedJob := Some j, currentPage := currentPage c + 1, error := JNull,
               canInitiateRequests := False, fetchingMoreResults := True\<rparr>"
  have run: "fetchMoreResults beyond c w = Inr (?c1, w1)"
    by (simp add: fetchMoreResults_def cj c0 Let_def incrementPage_def resetErrorState_def s)
  have any: "currentPage (fetchMoreResults_settled (Rejected x) ?c1) = currentPage c \<and>
             error (fetchMoreResults_settled (Rejected x) ?c1) = x \<and>
             searchResults (fetchMoreResults_settled (Rejected x) ?c1) = searchResults c" for x
    by (simp add: fetchMoreResults_settled_Rejected)
  have http: "run_guarded (search_job_behaviour (HttpFailed response)) =
              Inr (Rejected (data response))"
    by simp
  have paging: "w1 = w0 \<and>
      promise j = Rejected (paging_error beyond (getFormattedInput c) (currentPage c + 1))"
    if "currentPage c + 1 > PAGE_LIMIT"
    using s that by (auto simp: searchByKeywordWithPaging_def)
  show ?thesis
  proof (intro exI conjI impI)
    show "fetchMoreResults beyond c w = Inr (?c1, w1)" by (rule run)
    show "delayedJob ?c1 = Some j" by simp
    show "currentPage ?c1 = currentPage c + 1" by simp
    show "currentPage (fetchMoreResults_settled (Rejected r) ?c1) = currentPage c"
      using any by blast
    show "error (fetchMoreResults_settled (Rejected r) ?c1) = r"
      using any by blast
    show "searchResults (fetchMoreResults_settled (Rejected r) ?c1) = searchResults c"
      using any by blast
    show "run_guarded (search_job_behaviour (HttpFailed response)) =
            Inr (Rejected (data response))"
      by (rule http)
    show "currentPage (fetchMoreResults_settled (Rejected (data response)) ?c1) = currentPage c"
      using any by blast
    show "error (fetchMoreResults_settled (Rejected (data response)) ?c1) = data response"
      using any by blast
    show "searchResults (fetchMoreResults_settled (Rejected (data response)) ?c1) =
            searchResults c"
      using any by blast
    show "w1 = snd (cancelJobIfStillActive c w)" if "currentPage c + 1 > PAGE_LIMIT"
      using paging [OF that] cj by simp
    show "promise j = Rejected (paging_error beyond (getFormattedInput c) (currentPage c + 1))"
      if "currentPage c + 1 > PAGE_LIMIT"
      using paging [OF that] by simp
    show "currentPage (fetchMoreResults_settled (promise j) ?c1) = currentPage c"
      if "currentPage c + 1 > PAGE_LIMIT"
      using paging [OF that] any by simp
    show "error (fetchMoreResults_settled (promise j) ?c1) =
            paging_error beyond (getFormattedInput c) (currentPage c + 1)"
      if "currentPage c + 1 > PAGE_LIMIT"
      using paging [OF that] any by simp
    show "searchResults (fetchMoreResults_settled (promise j) ?c1) = searchResults c"
      if "currentPage c + 1 > PAGE_LIMIT"
      using paging [OF that] any by simp
  qed
qed

theorem fetchMoreResults_failure_compensated_witness:
  "fetchMoreResults unprinted
     \<lparr>delayedJob = None, currentPage = 3, searchTerm = ''foo'',
      searchResults = [JObj [(''owner'', JStr ''o'')]], canInitiateRequests = True,
      fetchingMoreResults = False, canLoadMore = Some True, error = JNull\<rparr> new_world =
     Inr (\<lparr>delayedJob = Some \<lparr>handle = \<lparr>job = Guarded (SearchGitHubRepos ''foo'' 4),
                                          delay = 2000, taskID = Some 1\<rparr>, promise = Pending\<rparr>,
            currentPage = 4, searchTerm = ''foo'',
            searchResults = [JObj [(''owner'', JStr ''o'')]],
            canInitiateRequests = False, fetchingMoreResults = True, canLoadMore = Some True,
            error = JNull\<rparr>,
          \<lparr>timers = \<lparr>pending = [(1, Guarded (SearchGitHubRepos ''foo'' 4), 2000)],
                      last_handle = 1\<rparr>, requests = []\<rparr>) \<and>
   fetchMoreResults_settled (Rejected (JObj [(''message'', JStr ''Not Found'')]))
     \<lparr>delayedJob = Some \<lparr>handle = \<lparr>job = Guarded (SearchGitHubRepos ''foo'' 4), delay = 2000,
                                    taskID = Some 1\<rparr>, promise = Pending\<rparr>,
      currentPage = 4, searchTerm = ''foo'', searchResults = [JObj [(''owner'', JStr ''o'')]],
      canInitiateRequests = False, fetchingMoreResults = True, canLoadMore = Some True,
      error = JNull\<rparr> =
     \<lparr>delayedJob = Some \<lparr>handle = \<lparr>job = Guarded (SearchGitHubRepos ''foo'' 4), delay = 2000,
                                    taskID = Some 1\<rparr>, promise = Pending\<rparr>,
      currentPage = 3, searchTerm = ''foo'', searchResults = [JObj [(''owner'', JStr ''o'')]],
      canInitiateRequests = True, fetchingMoreResults = False, canLoadMore = Some True,
      error = JObj [(''message'', JStr ''Not Found'')]\<rparr> \<and>
   10 + 1 > PAGE_LIMIT \<and>
   fetchMoreResults unprinted
     \<lparr>delayedJob = None, currentPage = 10, searchTerm = ''foo'',
      searchResults = [JObj [(''owner'', JStr ''o'')]], canInitiateRequests = True,
      fetchingMoreResults = False, canLoadMore = Some True, error = JNull\<rparr> new_world =
     Inr (\<lparr>delayedJob = Some \<lparr>handle = \<lparr>job = Plain NoOpFunction, delay = 0, taskID = None\<rparr>,
                                promise = Rejected (JObj [(''message'',
                                  JStr ''INVALID PAGING VALUE 11 FOR KEYWORD foo'')])\<rparr>,
            currentPage = 11, searchTerm = ''foo'',
            searchResults = [JObj [(''owner'', JStr ''o'')]],
            canInitiateRequests = False, fetchingMoreResults = True, canLoadMore = Some True,
            error = JNull\<rparr>, new_world) \<and>
   currentPage (fetchMoreResults_settled
     (Rejected (JObj [(''message'', JStr ''INVALID PAGING VALUE 11 FOR KEYWORD foo'')]))
     \<lparr>delayedJob = Some \<lparr>handle = \<lparr>job = Plain NoOpFunction, delay = 0, taskID = None\<rparr>,
                         promise = Rejected (JObj [(''message'',
                           JStr ''INVALID PAGING VALUE 11 FOR KEYWORD foo'')])\<rparr>,
      currentPage = 11, searchTerm = ''foo'',
      searchResults = [JObj [(''owner'', JStr ''o'')]],
      canInitiateRequests = False, fetchingMoreResults = True, canLoadMore = Some True,
      error = JNull\<rparr>) = 10"
proof -
  let ?c = "\<lparr>delayedJob = None, currentPage = 3, searchTerm = ''foo'',
      searchResults = [JObj [(''owner'', JStr ''o'')]], canInitiateRequests = True,
      fetchingMoreResults = False, canLoadMore = Some True, error = JNull\<rparr>"
  let ?c1 = "\<lparr>delayedJob = Some \<lparr>handle = \<lparr>job = Guarded (SearchGitHubRepos ''foo'' 4),
                                          delay = 2000, taskID = Some 1\<rparr>, promise = Pending\<rparr>,
            currentPage = 4, searchTerm = ''foo'',
            searchResults = [JObj [(''owner'', JStr ''o'')]],
            canInitiateRequests = False, fetchingMoreResults = True, canLoadMore = Some True,
            error = JNull\<rparr>"
  let ?w1 = "\<lparr>timers = \<lparr>pending = [(1, Guarded (SearchGitHubRepos ''foo'' 4), 2000)],
                      last_handle = 1\<rparr>, requests = []\<rparr>"
  let ?r = "JObj [(''message'', JStr ''Not Found'')]"
  let ?d = "\<lparr>delayedJob = None, currentPage = 10, searchTerm = ''foo'',
      searchResults = [JObj [(''owner'', JStr ''o'')]], canInitiateRequests = True,
      fetchingMoreResults = False, canLoadMore = Some True, error = JNull\<rparr>"
  let ?m = "JObj [(''message'', JStr ''INVALID PAGING VALUE 11 FOR KEYWORD foo'')]"
  let ?d1 = "\<lparr>delayedJob = Some \<lparr>handle = \<lparr>job = Plain NoOpFunction, delay = 0, taskID = None\<rparr>,
                                 promise = Rejected ?m\<rparr>,
      currentPage = 11, searchTerm = ''foo'',
      searchResults = [JObj [(''owner'', JStr ''o'')]],
      canInitiateRequests = False, fetchingMoreResults = True, canLoadMore = Some True,
      error = JNull\<rparr>"
  have rng: "START_PAGE \<le> 4" "4 \<le> PAGE_LIMIT"
    by (simp_all add: START_PAGE_def PAGE_LIMIT_def)
  have run: "fetchMoreResults unprinted ?c new_world = Inr (?c1, ?w1)"
    by (simp add: fetchMoreResults_def cancelJobIfStillActive_def Let_def incrementPage_def
        resetErrorState_def getFormattedInput_def searchByKeywordWithPaging_in_range [OF rng]
        new_world_def TIME_DELAY_def)
  have over: "currentPage ?d + 1 > PAGE_LIMIT" by (simp add: PAGE_LIMIT_def)
  have text11: "number_to_string unprinted 11 = ''11''"
    by (simp add: number_to_string_def safe_integer_def nat_to_string.simps)
  have run2: "fetchMoreResults unprinted ?d new_world = Inr (?d1, new_world)"
    by (simp add: fetchMoreResults_def cancelJobIfStillActive_def Let_def incrementPage_def
        resetErrorState_def getFormattedInput_def searchByKeywordWithPaging_def
        PAGE_LIMIT_def dummyDelayedTask_def new_DelayedTask_def paging_error_def text11)
  from fetchMoreResults_failure_compensated [of unprinted ?c new_world ?r] run
  have a: "currentPage (fetchMoreResults_settled (Rejected ?r) ?c1) = 3 \<and>
           error (fetchMoreResults_settled (Rejected ?r) ?c1) = ?r \<and>
           searchResults (fetchMoreResults_settled (Rejected ?r) ?c1) =
             [JObj [(''owner'', JStr ''o'')]]"
    by simp
  have a': "fetchMoreResults_settled (Rejected ?r) ?c1 =
            ?c1\<lparr>currentPage := 3, error := ?r, canInitiateRequests := True,
                 fetchingMoreResults := False\<rparr>"
    using a by (simp add: fetchMoreResults_settled_Rejected)
  from fetchMoreResults_failure_compensated [of unprinted ?d new_world ?r]
  obtain d1 w1 j where
    r2: "fetchMoreResults unprinted ?d new_world = Inr (d1, w1)" and
    j: "delayedJob d1 = Some j" and
    pg: "currentPage ?d + 1 > PAGE_LIMIT \<longrightarrow>
           currentPage (fetchMoreResults_settled (promise j) d1) = currentPage ?d"
    by blast
  from r2 run2 have d1: "d1 = ?d1" by simp
  with j have "j = \<lparr>handle = \<lparr>job = Plain NoOpFunction, delay = 0, taskID = None\<rparr>,
                     promise = Rejected ?m\<rparr>"
    by simp
  then have "promise j = Rejected ?m" by simp
  with pg over d1 have b: "currentPage (fetchMoreResults_settled (Rejected ?m) ?d1) = 10"
    by simp
  from run a' run2 b over show ?thesis by simp
qed

text \<open>
  The claim as stated speaks of every invocation whose job fails. It fails when another
  action runs between the call and a late failure: \<open>fetchMoreResults\<close> on page 1 moves to
  page 2 and arms the timer; the timer fires and the request is sent; \<open>conductSearch\<close>
  resets the page to 1 (its \<open>cancel\<close> finds no pending timer and cannot recall the
  request); the request then fails and the handlers of the first call decrement the page
  to 0, not to the 1 it had before the call.
\<close>

theorem fetchMoreResults_late_failure_counterexample:
  "fetchMoreResults unprinted
     \<lparr>delayedJob = None, currentPage = 1, searchTerm = ''foo'',
      searchResults = [JObj [(''owner'', JStr ''o'')]], canInitiateRequests = True,
      fetchingMoreResults = False, canLoadMore = Some True, error = JNull\<rparr> new_world =
     Inr (\<lparr>delayedJob = Some \<lparr>handle = \<lparr>job = Guarded (SearchGitHubRepos ''foo'' 2),
                                          delay = 2000, taskID = Some 1\<rparr>, promise = Pending\<rparr>,
            currentPage = 2, searchTerm = ''foo'',
            searchResults = [JObj [(''owner'', JStr ''o'')]],
            canInitiateRequests = False, fetchingMoreResults = True, canLoadMore = Some True,
            error = JNull\<rparr>,
          \<lparr>timers = \<lparr>pending = [(1, Guarded (SearchGitHubRepos ''foo'' 2), 2000)],
                      last_handle = 1\<rparr>, requests = []\<rparr>) \<and>
   timer_fires unprinted 1
     \<lparr>timers = \<lparr>pending = [(1, Guarded (SearchGitHubRepos ''foo'' 2), 2000)], last_handle = 1\<rparr>,
      requests = []\<rparr> =
     \<lparr>timers = \<lparr>pending = [], last_handle = 1\<rparr>,
      requests = [''https://api.github.com/legacy/repos/search/foo?start_page=2'']\<rparr> \<and>
   conductSearch unprinted
     \<lparr>delayedJob = Some \<lparr>handle = \<lparr>job = Guarded (SearchGitHubRepos ''foo'' 2), delay = 2000,
                                    taskID = Some 1\<rparr>, promise = Pending\<rparr>,
      currentPage = 2, searchTerm = ''foo'', searchResults = [JObj [(''owner'', JStr ''o'')]],
      canInitiateRequests = False, fetchingMoreResults = True, canLoadMore = Some True,
      error = JNull\<rparr>
     \<lparr>timers = \<lparr>pending = [], last_handle = 1\<rparr>,
      requests = [''https://api.github.com/legacy/repos/search/foo?start_page=2'']\<rparr> =
     Inr (\<lparr>delayedJob = Some \<lparr>handle = \<lparr>job = Guarded (SearchGitHubRepos ''foo'' 1),
                                          delay = 2000, taskID = Some 2\<rparr>, promise = Pending\<rparr>,
            currentPage = 1, searchTerm = ''foo'', searchResults = [],
            canInitiateRequests = False, fetchingMoreResults = False, canLoadMore = Some True,
            error = JNull\<rparr>,
          \<lparr>timers = \<lparr>pending = [(2, Guarded (SearchGitHubRepos ''foo'' 1), 2000)],
                      last_handle = 2\<rparr>,
           requests = [''https://api.github.com/legacy/repos/search/foo?start_page=2'']\<rparr>) \<and>
   run_guarded (search_job_behaviour
     (HttpFailed \<lparr>data = JObj [(''message'', JStr ''Not Found'')], status = 404\<rparr>)) =
     Inr (Rejected (JObj [(''message'', JStr ''Not Found'')])) \<and>
   fetchMoreResults_settled (Rejected (JObj [(''message'', JStr ''Not Found'')]))
     \<lparr>delayedJob = Some \<lparr>handle = \<lparr>job = Guarded (SearchGitHubRepos ''foo'' 1), delay = 2000,
                                    taskID = Some 2\<rparr>, promise = Pending\<rparr>,
      currentPage = 1, searchTerm = ''foo'', searchResults = [],
      canInitiateRequests = False, fetchingMoreResults = False, canLoadMore = Some True,
      error = JNull\<rparr> =
     \<lparr>delayedJob = Some \<lparr>handle = \<lparr>job = Guarded (SearchGitHubRepos ''foo'' 1), delay = 2000,
                                    taskID = Some 2\<rparr>, promise = Pending\<rparr>,
      currentPage = 0, searchTerm = ''foo'', searchResults = [],
      canInitiateRequests = True, fetchingMoreResults = False, canLoadMore = Some True,
      error = JObj [(''message'', JStr ''Not Found'')]\<rparr>"
  by (simp add: fetchMoreResults_def conductSearch_def new_world_def getFormattedInput_def
      cancelJobIfStillActive_def cancel_def clearInterval_def resetPaging_def
      resetErrorState_def incrementPage_def START_PAGE_def
      PAGE_LIMIT_def TIME_DELAY_def searchByKeywordWithPaging_def create_def
      new_DelayedTask_def searchGitHubRepos_def schedule_def truthy_def setTimeout_def
      timer_fires_def fire_def createGithubSearchURL_def TARGET_URL_PRFIX_def
      number_to_string_def safe_integer_def nat_to_string.simps Let_def
      fetchMoreResults_settled_Rejected)

text \<open>
  Claim C6. For every successful response whose batch of beans has no element, the success
  handler sets \<open>canLoadMore\<close> to false and leaves \<open>searchResults\<close> unchanged; the same
  holds after the whole handler chain of either action.
\<close>

theorem empty_batch_disables_load_more:
  assumes "length beans = 0"
  shows "onSearchResultsReceived beans c = c\<lparr>canLoadMore := Some False\<rparr> \<and>
         canLoadMore (onSearchResultsReceived beans c) = Some False \<and>
         searchResults (onSearchResultsReceived beans c) = searchResults c \<and>
         canLoadMore (conductSearch_settled (Fulfilled beans) c) = Some False \<and>
         searchResults (conductSearch_settled (Fulfilled beans) c) = searchResults c \<and>
         canLoadMore (fetchMoreResults_settled (Fulfilled beans) c) = Some False \<and>
         searchResults (fetchMoreResults_settled (Fulfilled beans) c) = searchResults c"
  using assms
  by (simp add: onSearchResultsReceived_def disableLoadMore_def conductSearch_settled_Fulfilled
      fetchMoreResults_settled_Fulfilled resetRequestInitiation_def)

theorem empty_batch_disables_load_more_witness:
  "length (createResultBeans \<lparr>data = \<lparr>repositories = []\<rparr>, status = 200\<rparr>) = 0 \<and>
   onSearchResultsReceived (createResultBeans \<lparr>data = \<lparr>repositories = []\<rparr>, status = 200\<rparr>)
     \<lparr>delayedJob = None, currentPage = 2, searchTerm = ''foo'',
      searchResults = [JObj [(''owner'', JStr ''o'')]], canInitiateRequests = False,
      fetchingMoreResults = True, canLoadMore = Some True, error = JNull\<rparr> =
     \<lparr>delayedJob = None, currentPage = 2, searchTerm = ''foo'',
      searchResults = [JObj [(''owner'', JStr ''o'')]], canInitiateRequests = False,
      fetchingMoreResults = True, canLoadMore = Some False, error = JNull\<rparr>"
proof -
  have e: "length (createResultBeans \<lparr>data = \<lparr>repositories = []\<rparr>, status = 200\<rparr>) = 0"
    by (simp add: createResultBeans_map)
  from empty_batch_disables_load_more [OF e] e show ?thesis by simp
qed

lemma search_job_success:
  "run_guarded (search_job_behaviour (HttpOk response)) =
     Inr (Fulfilled (createResultBeans response))"
  by simp

text \<open>
  Claim C7. For every successful response whose \<open>repositories\<close> array has N > 0 records,
  the search job and the factory's callback fulfil the job's promise with the beans of
  \<open>createResultBeans\<close>, and with that settlement the handler chain of either action makes
  \<open>searchResults\<close> grow by exactly the N beans, in arrival order, behind the results
  already there; each bean has the six members owner, name, language, followers, url and
  description, each read from the raw record, and no other member; \<open>canLoadMore\<close> keeps
  its value (it remains true). The same is stated of the success handler alone.
\<close>

theorem nonempty_batch_appended:
  assumes "repositories (data response) = rs" and "length rs > 0"
  shows "(\<exists>p. run_guarded (search_job_behaviour (HttpOk response)) = Inr p \<and>
              p = Fulfilled (createResultBeans response) \<and>
              searchResults (conductSearch_settled p c) = searchResults c @ map result_bean rs \<and>
              length (searchResults (conductSearch_settled p c)) =
                length (searchResults c) + length rs \<and>
              canLoadMore (conductSearch_settled p c) = canLoadMore c \<and>
              searchResults (fetchMoreResults_settled p c) =
                searchResults c @ map result_bean rs \<and>
              length (searchResults (fetchMoreResults_settled p c)) =
                length (searchResults c) + length rs \<and>
              canLoadMore (fetchMoreResults_settled p c) = canLoadMore c \<and>
              currentPage (fetchMoreResults_settled p c) = currentPage c \<and>
              (\<forall>i. i < length rs \<longrightarrow>
                 (\<exists>fs. searchResults (conductSearch_settled p c) !
                         (length (searchResults c) + i) = JObj fs \<and>
                       searchResults (fetchMoreResults_settled p c) !
                         (length (searchResults c) + i) = JObj fs \<and>
                       map fst fs =
                         [''owner'', ''name'', ''language'', ''followers'', ''url'',
                          ''description''] \<and>
                       (\<forall>k. member_of fs k =
                          (if k \<in> set [''owner'', ''name'', ''language'', ''followers'', ''url'',
                                        ''description'']
                           then member_of (rs ! i) k else JUndefined))))) \<and>
         searchResults (onSearchResultsReceived (createResultBeans response) c) =
           searchResults c @ map result_bean rs \<and>
         length (searchResults (onSearchResultsReceived (createResultBeans response) c)) =
           length (searchResults c) + length rs \<and>
         (\<forall>i. i < length rs \<longrightarrow>
            (\<exists>fs. searchResults (onSearchResultsReceived (createResultBeans response) c) !
                    (length (searchResults c) + i) = JObj fs \<and>
                  map fst fs =
                    [''owner'', ''name'', ''language'', ''followers'', ''url'', ''description''] \<and>
                  (\<forall>k. member_of fs k =
                     (if k \<in> set [''owner'', ''name'', ''language'', ''followers'', ''url'',
                                   ''description'']
                      then member_of (rs ! i) k else JUndefined)))) \<and>
         canLoadMore (onSearchResultsReceived (createResultBeans response) c) = canLoadMore c \<and>
         searchResults (conductSearch_settled (Fulfilled (createResultBeans response)) c) =
           searchResults c @ map result_bean rs \<and>
         canLoadMore (conductSearch_settled (Fulfilled (createResultBeans response)) c) =
           canLoadMore c \<and>
         searchResults (fetchMoreResults_settled (Fulfilled (createResultBeans response)) c) =
           searchResults c @ map result_bean rs \<and>
         canLoadMore (fetchMoreResults_settled (Fulfilled (createResultBeans response)) c) =
           canLoadMore c"
proof -
  have beans: "createResultBeans response = map result_bean rs"
    using assms(1) by (simp add: createResultBeans_map)
  have h: "onSearchResultsReceived (createResultBeans response) c =
             c\<lparr>searchResults := searchResults c @ map result_bean rs\<rparr>"
    using assms(2) by (simp add: beans onSearchResultsReceived_def)
  have nth: "\<exists>fs. (searchResults c @ map result_bean rs) ! (length (searchResults c) + i) = JObj fs \<and>
        map fst fs = [''owner'', ''name'', ''language'', ''followers'', ''url'', ''description''] \<and>
        (\<forall>k. member_of fs k =
           (if k \<in> set [''owner'', ''name'', ''language'', ''followers'', ''url'', ''description'']
            then member_of (rs ! i) k else JUndefined))"
    if "i < length rs" for i
  proof -
    have "(searchResults c @ map result_bean rs) ! (length (searchResults c) + i) =
          result_bean (rs ! i)"
      using that by (simp add: nth_append)
    with result_bean_projection [of "rs ! i"] show ?thesis by simp
  qed
  have cs: "conductSearch_settled (Fulfilled (createResultBeans response)) c =
              c\<lparr>searchResults := searchResults c @ map result_bean rs,
                canInitiateRequests := True, fetchingMoreResults := False\<rparr>"
    by (simp add: conductSearch_settled_Fulfilled h resetRequestInitiation_def)
  have fm: "fetchMoreResults_settled (Fulfilled (createResultBeans response)) c =
              c\<lparr>searchResults := searchResults c @ map result_bean rs,
                canInitiateRequests := True, fetchingMoreResults := False\<rparr>"
    by (simp add: fetchMoreResults_settled_Fulfilled h resetRequestInitiation_def)
  have handler: "searchResults (onSearchResultsReceived (createResultBeans response) c) =
           searchResults c @ map result_bean rs \<and>
         length (searchResults (onSearchResultsReceived (createResultBeans response) c)) =
           length (searchResults c) + length rs \<and>
         (\<forall>i. i < length rs \<longrightarrow>
            (\<exists>fs. searchResults (onSearchResultsReceived (createResultBeans response) c) !
                    (length (searchResults c) + i) = JObj fs \<and>
                  map fst fs =
                    [''owner'', ''name'', ''language'', ''followers'', ''url'', ''description''] \<and>
                  (\<forall>k. member_of fs k =
                     (if k \<in> set [''owner'', ''name'', ''language'', ''followers'', ''url'',
                                   ''description'']
                      then member_of (rs ! i) k else JUndefined)))) \<and>
         canLoadMore (onSearchResultsReceived (createResultBeans response) c) = canLoadMore c"
    unfolding h using nth by simp
  have chain: "searchResults (conductSearch_settled (Fulfilled (createResultBeans response)) c) =
           searchResults c @ map result_bean rs \<and>
         canLoadMore (conductSearch_settled (Fulfilled (createResultBeans response)) c) =
           canLoadMore c \<and>
         searchResults (fetchMoreResults_settled (Fulfilled (createResultBeans response)) c) =
           searchResults c @ map result_bean rs \<and>
         canLoadMore (fetchMoreResults_settled (Fulfilled (createResultBeans response)) c) =
           canLoadMore c"
    by (simp add: cs fm)
  have job: "\<exists>p. run_guarded (search_job_behaviour (HttpOk response)) = Inr p \<and>
              p = Fulfilled (createResultBeans response) \<and>
              searchResults (conductSearch_settled p c) = searchResults c @ map result_bean rs \<and>
              length (searchResults (conductSearch_settled p c)) =
                length (searchResults c) + length rs \<and>
              canLoadMore (conductSearch_settled p c) = canLoadMore c \<and>
              searchResults (fetchMoreResults_settled p c) =
                searchResults c @ map result_bean rs \<and>
              length (searchResults (fetchMoreResults_settled p c)) =
                length (searchResults c) + length rs \<and>
              canLoadMore (fetchMoreResults_settled p c) = canLoadMore c \<and>
              currentPage (fetchMoreResults_settled p c) = currentPage c \<and>
              (\<forall>i. i < length rs \<longrightarrow>
                 (\<exists>fs. searchResults (conductSearch_settled p c) !
                         (length (searchResults c) + i) = JObj fs \<and>
                       searchResults (fetchMoreResults_settled p c) !
                         (length (searchResults c) + i) = JObj fs \<and>
                       map fst fs =
                         [''owner'', ''name'', ''language'', ''followers'', ''url'',
                          ''description''] \<and>
                       (\<forall>k. member_of fs k =
                          (if k \<in> set [''owner'', ''name'', ''language'', ''followers'', ''url'',
                                        ''description'']
                           then member_of (rs ! i) k else JUndefined))))"
  proof (intro exI conjI)
    show "run_guarded (search_job_behaviour (HttpOk response)) =
            Inr (Fulfilled (createResultBeans response))"
      by (rule search_job_success)
    show "\<forall>i. i < length rs \<longrightarrow>
       (\<exists>fs. searchResults (conductSearch_settled (Fulfilled (createResultBeans response)) c) !
               (length (searchResults c) + i) = JObj fs \<and>
             searchResults (fetchMoreResults_settled (Fulfilled (createResultBeans response)) c) !
               (length (searchResults c) + i) = JObj fs \<and>
             map fst fs =
               [''owner'', ''name'', ''language'', ''followers'', ''url'', ''description''] \<and>
             (\<forall>k. member_of fs k =
                (if k \<in> set [''owner'', ''name'', ''language'', ''followers'', ''url'',
                              ''description'']
                 then member_of (rs ! i) k else JUndefined)))"
      unfolding cs fm using nth by simp
  qed (simp_all add: cs fm)
  from job handler chain show ?thesis by blast
qed

theorem nonempty_batch_appended_witness:
  "repositories (data \<lparr>data = \<lparr>repositories =
       [[(''owner'', JStr ''o''), (''name'', JStr ''n''), (''language'', JStr ''JS''),
         (''followers'', JNum 3), (''url'', JStr ''u''), (''description'', JStr ''d''),
         (''forks'', JNum 2)]]\<rparr>, status = 200\<rparr>) =
     [[(''owner'', JStr ''o''), (''name'', JStr ''n''), (''language'', JStr ''JS''),
       (''followers'', JNum 3), (''url'', JStr ''u''), (''description'', JStr ''d''),
       (''forks'', JNum 2)]] \<and>
   run_guarded (search_job_behaviour (HttpOk \<lparr>data = \<lparr>repositories =
       [[(''owner'', JStr ''o''), (''name'', JStr ''n''), (''language'', JStr ''JS''),
         (''followers'', JNum 3), (''url'', JStr ''u''), (''description'', JStr ''d''),
         (''forks'', JNum 2)]]\<rparr>, status = 200\<rparr>)) =
     Inr (Fulfilled
       [JObj [(''owner'', JStr ''o''), (''name'', JStr ''n''), (''language'', JStr ''JS''),
              (''followers'', JNum 3), (''url'', JStr ''u''), (''description'', JStr ''d'')]]) \<and>
   searchResults (conductSearch_settled (Fulfilled
       [JObj [(''owner'', JStr ''o''), (''name'', JStr ''n''), (''language'', JStr ''JS''),
              (''followers'', JNum 3), (''url'', JStr ''u''), (''description'', JStr ''d'')]])
     \<lparr>delayedJob = None, currentPage = 1, searchTerm = ''foo bar'', searchResults = [],
      canInitiateRequests = False, fetchingMoreResults = False, canLoadMore = Some True,
      error = JNull\<rparr>) =
     [JObj [(''owner'', JStr ''o''), (''name'', JStr ''n''), (''language'', JStr ''JS''),
            (''followers'', JNum 3), (''url'', JStr ''u''), (''description'', JStr ''d'')]] \<and>
   canLoadMore (conductSearch_settled (Fulfilled
       [JObj [(''owner'', JStr ''o''), (''name'', JStr ''n''), (''language'', JStr ''JS''),
              (''followers'', JNum 3), (''url'', JStr ''u''), (''description'', JStr ''d'')]])
     \<lparr>delayedJob = None, currentPage = 1, searchTerm = ''foo bar'', searchResults = [],
      canInitiateRequests = False, fetchingMoreResults = False, canLoadMore = Some True,
      error = JNull\<rparr>) = Some True \<and>
   searchResults (fetchMoreResults_settled (Fulfilled
       [JObj [(''owner'', JStr ''o''), (''name'', JStr ''n''), (''language'', JStr ''JS''),
              (''followers'', JNum 3), (''url'', JStr ''u''), (''description'', JStr ''d'')]])
     \<lparr>delayedJob = None, currentPage = 2, searchTerm = ''foo bar'',
      searchResults = [JObj [(''owner'', JStr ''p'')]],
      canInitiateRequests = False, fetchingMoreResults = True, canLoadMore = Some True,
      error = JNull\<rparr>) =
     [JObj [(''owner'', JStr ''p'')],
      JObj [(''owner'', JStr ''o''), (''name'', JStr ''n''), (''language'', JStr ''JS''),
            (''followers'', JNum 3), (''url'', JStr ''u''), (''description'', JStr ''d'')]]"
proof -
  let ?r = "[(''owner'', JStr ''o''), (''name'', JStr ''n''), (''language'', JStr ''JS''),
             (''followers'', JNum 3), (''url'', JStr ''u''), (''description'', JStr ''d''),
             (''forks'', JNum 2)]"
  let ?resp = "\<lparr>data = \<lparr>repositories = [?r]\<rparr>, status = 200\<rparr>"
  let ?c = "\<lparr>delayedJob = None, currentPage = 1, searchTerm = ''foo bar'', searchResults = [],
      canInitiateRequests = False, fetchingMoreResults = False, canLoadMore = Some True,
      error = JNull\<rparr>"
  let ?d = "\<lparr>delayedJob = None, currentPage = 2, searchTerm = ''foo bar'',
      searchResults = [JObj [(''owner'', JStr ''p'')]],
      canInitiateRequests = False, fetchingMoreResults = True, canLoadMore = Some True,
      error = JNull\<rparr>"
  have a: "repositories (data ?resp) = [?r]" by simp
  have b: "length [?r] > 0" by simp
  have bean: "result_bean ?r =
      JObj [(''owner'', JStr ''o''), (''name'', JStr ''n''), (''language'', JStr ''JS''),
            (''followers'', JNum 3), (''url'', JStr ''u''), (''description'', JStr ''d'')]"
    by (simp add: result_bean_def member_of_def)
  have beans: "createResultBeans ?resp = [result_bean ?r]"
    by (simp add: createResultBeans_map)
  from nonempty_batch_appended [OF a b, of ?c]
  have c: "run_guarded (search_job_behaviour (HttpOk ?resp)) =
             Inr (Fulfilled (createResultBeans ?resp)) \<and>
           searchResults (conductSearch_settled (Fulfilled (createResultBeans ?resp)) ?c) =
             searchResults ?c @ map result_bean [?r] \<and>
           canLoadMore (conductSearch_settled (Fulfilled (createResultBeans ?resp)) ?c) =
             canLoadMore ?c"
    by blast
  from nonempty_batch_appended [OF a b, of ?d]
  have d: "searchResults (fetchMoreResults_settled (Fulfilled (createResultBeans ?resp)) ?d) =
             searchResults ?d @ map result_bean [?r]"
    by blast
  from a c d show ?thesis
    by (simp add: beans bean)
qed

text \<open>
  Claim C10. For a batch that is not empty, \<open>onSearchResultsReceived\<close> changes
  \<open>searchResults\<close> and nothing else: \<open>currentPage\<close>, \<open>canLoadMore\<close>, \<open>error\<close> and the
  job held in \<open>delayedJob\<close> are as before.
\<close>

theorem nonempty_batch_touches_results_only:
  assumes "beans \<noteq> []"
  shows "onSearchResultsReceived beans c = c\<lparr>searchResults := searchResults c @ beans\<rparr> \<and>
         currentPage (onSearchResultsReceived beans c) = currentPage c \<and>
         canLoadMore (onSearchResultsReceived beans c) = canLoadMore c \<and>
         error (onSearchResultsReceived beans c) = error c \<and>
         delayedJob (onSearchResultsReceived beans c) = delayedJob c"
  using assms by (simp add: onSearchResultsReceived_def)

theorem nonempty_batch_touches_results_only_witness:
  "[JObj [(''owner'', JStr ''o'')]] \<noteq> [] \<and>
   onSearchResultsReceived [JObj [(''owner'', JStr ''o'')]]
     \<lparr>delayedJob = None, currentPage = 3, searchTerm = ''foo'',
      searchResults = [JObj [(''owner'', JStr ''p'')]], canInitiateRequests = False,
      fetchingMoreResults = True, canLoadMore = Some True, error = JNull\<rparr> =
     \<lparr>delayedJob = None, currentPage = 3, searchTerm = ''foo'',
      searchResults = [JObj [(''owner'', JStr ''p'')], JObj [(''owner'', JStr ''o'')]],
      canInitiateRequests = False, fetchingMoreResults = True, canLoadMore = Some True,
      error = JNull\<rparr>"
proof -
  have ne: "[JObj [(''owner'', JStr ''o'')]] \<noteq> []" by simp
  from nonempty_batch_touches_results_only [OF ne] show ?thesis by simp
qed

text \<open>
  Claim C9. \<open>isAllowedToLoadMore\<close> only reads the controller. It is true if and only if
  \<open>canLoadMore\<close> is true, the formatted term is not empty (which is the case exactly when
  the term is not empty), \<open>currentPage\<close> is at most PAGE_LIMIT, \<open>canInitiateRequests\<close> is
  true and there is at least one result; it is false as soon as one of the five fails.
\<close>

theorem isAllowedToLoadMore_iff:
  "(isAllowedToLoadMore c \<longleftrightarrow>
      canLoadMore c = Some True \<and> getFormattedInput c \<noteq> [] \<and> currentPage c \<le> PAGE_LIMIT \<and>
      canInitiateRequests c \<and> searchResults c \<noteq> []) \<and>
   (getFormattedInput c \<noteq> [] \<longleftrightarrow> searchTerm c \<noteq> []) \<and>
   (canLoadMore c \<noteq> Some True \<longrightarrow> \<not> isAllowedToLoadMore c) \<and>
   (getFormattedInput c = [] \<longrightarrow> \<not> isAllowedToLoadMore c) \<and>
   (currentPage c > PAGE_LIMIT \<longrightarrow> \<not> isAllowedToLoadMore c) \<and>
   (\<not> canInitiateRequests c \<longrightarrow> \<not> isAllowedToLoadMore c) \<and>
   (searchResults c = [] \<longrightarrow> \<not> isAllowedToLoadMore c)"
  by (auto simp: isAllowedToLoadMore_def getFormattedInput_empty_iff)

theorem isAllowedToLoadMore_iff_witness:
  "isAllowedToLoadMore
     \<lparr>delayedJob = None, currentPage = 10, searchTerm = ''foo bar'',
      searchResults = [JObj [(''owner'', JStr ''o'')]], canInitiateRequests = True,
      fetchingMoreResults = False, canLoadMore = Some True, error = JNull\<rparr> \<and>
   \<not> isAllowedToLoadMore
     \<lparr>delayedJob = None, currentPage = 11, searchTerm = ''foo bar'',
      searchResults = [JObj [(''owner'', JStr ''o'')]], canInitiateRequests = True,
      fetchingMoreResults = False, canLoadMore = Some True, error = JNull\<rparr> \<and>
   \<not> isAllowedToLoadMore
     \<lparr>delayedJob = None, currentPage = 1, searchTerm = ''foo bar'',
      searchResults = [JObj [(''owner'', JStr ''o'')]], canInitiateRequests = True,
      fetchingMoreResults = False, canLoadMore = None, error = JNull\<rparr> \<and>
   \<not> isAllowedToLoadMore
     \<lparr>delayedJob = None, currentPage = 1, searchTerm = [],
      searchResults = [JObj [(''owner'', JStr ''o'')]], canInitiateRequests = True,
      fetchingMoreResults = False, canLoadMore = Some True, error = JNull\<rparr> \<and>
   \<not> isAllowedToLoadMore
     \<lparr>delayedJob = None, currentPage = 1, searchTerm = ''foo bar'',
      searchResults = [JObj [(''owner'', JStr ''o'')]], canInitiateRequests = False,
      fetchingMoreResults = False, canLoadMore = Some True, error = JNull\<rparr> \<and>
   \<not> isAllowedToLoadMore
     \<lparr>delayedJob = None, currentPage = 1, searchTerm = ''foo bar'',
      searchResults = [], canInitiateRequests = True,
      fetchingMoreResults = False, canLoadMore = Some True, error = JNull\<rparr>"
proof -
  let ?ok = "\<lparr>delayedJob = None, currentPage = 10, searchTerm = ''foo bar'',
      searchResults = [JObj [(''owner'', JStr ''o'')]], canInitiateRequests = True,
      fetchingMoreResults = False, canLoadMore = Some True, error = JNull\<rparr>"
  have t: "searchTerm ?ok \<noteq> []" by simp
  have p: "currentPage ?ok \<le> PAGE_LIMIT" by (simp add: PAGE_LIMIT_def)
  from isAllowedToLoadMore_iff [of ?ok] t p have ok: "isAllowedToLoadMore ?ok" by simp
  have page: "currentPage (?ok\<lparr>currentPage := 11\<rparr>) > PAGE_LIMIT" by (simp add: PAGE_LIMIT_def)
  from isAllowedToLoadMore_iff [of "?ok\<lparr>currentPage := 11\<rparr>"] page
  have n1: "\<not> isAllowedToLoadMore (?ok\<lparr>currentPage := 11\<rparr>)" by blast
  have "canLoadMore (?ok\<lparr>currentPage := 1, canLoadMore := None\<rparr>) \<noteq> Some True" by simp
  with isAllowedToLoadMore_iff [of "?ok\<lparr>currentPage := 1, canLoadMore := None\<rparr>"]
  have n2: "\<not> isAllowedToLoadMore (?ok\<lparr>currentPage := 1, canLoadMore := None\<rparr>)" by blast
  have "getFormattedInput (?ok\<lparr>currentPage := 1, searchTerm := []\<rparr>) = []"
    by (simp add: getFormattedInput_def)
  with isAllowedToLoadMore_iff [of "?ok\<lparr>currentPage := 1, searchTerm := []\<rparr>"]
  have n3: "\<not> isAllowedToLoadMore (?ok\<lparr>currentPage := 1, searchTerm := []\<rparr>)" by blast
  have "\<not> canInitiateRequests (?ok\<lparr>currentPage := 1, canInitiateRequests := False\<rparr>)" by simp
  with isAllowedToLoadMore_iff [of "?ok\<lparr>currentPage := 1, canInitiateRequests := False\<rparr>"]
  have n4: "\<not> isAllowedToLoadMore (?ok\<lparr>currentPage := 1, canInitiateRequests := False\<rparr>)" by blast
  have "searchResults (?ok\<lparr>currentPage := 1, searchResults := []\<rparr>) = []" by simp
  with isAllowedToLoadMore_iff [of "?ok\<lparr>currentPage := 1, searchResults := []\<rparr>"]
  have n5: "\<not> isAllowedToLoadMore (?ok\<lparr>currentPage := 1, searchResults := []\<rparr>)" by blast
  from ok n1 n2 n3 n4 n5 show ?thesis by simp
qed

end
